theory Spec2Isabelle
  imports Complex_Main "HOL-Library.Word" "HOL-Library.Multiset"
begin

section \<open>Data model of \<open>inference.py\<close>\<close>

text \<open>
  \<^item> A numpy array of shape \<open>(H, W)\<close> is a list of \<open>H\<close> rows of \<open>W\<close> cells; the colour
    axis of length 3 is a triple.
  \<^item> The source image is \<open>uint8\<close>. \<open>img * 0.5\<close> turns the working image into
    \<open>float64\<close>; these values are written as rationals (every \<open>uint8\<close> is exactly
    representable, halving is exact, and a sum of two halves is exact while a pixel has
    been blended fewer than 45 times).
  \<^item> \<open>masks\<close> is one boolean array of shape \<open>(N, H, W)\<close>; its last two axes are kept
    in the record because they survive \<open>N = 0\<close>.
  \<^item> \<open>labels\<close> are integers, \<open>scores\<close> and the threshold are numbers (a detector
    score is never NaN), \<open>boxes\<close> are four numbers each.
  \<^item> \<open>np.random.randint\<close> is the sequence \<open>draws\<close>: the \<open>k\<close>-th call returns
    \<open>draws k\<close>.
  \<^item> \<open>cv2.putText\<close> and \<open>CLASS_NAMES\<close> (read from a file at import time) are
    parameters \<open>putText\<close> and \<open>names\<close>.
\<close>

type_synonym u8 = "8 word"
type_synonym 'a px = "'a \<times> 'a \<times> 'a"
type_synonym 'a grid = "'a list list"
type_synonym box = "rat \<times> rat \<times> rat \<times> rat"
type_synonym renderer = "rat px grid \<Rightarrow> string \<Rightarrow> int \<times> int \<Rightarrow> rat px grid"

datatype error = IndexError | ValueError

record mask_array =
  mrows :: nat
  mcols :: nat
  planes :: "bool grid list"

record canvas =
  img :: "rat px grid"
  drawn :: nat
  texts :: "(string \<times> int \<times> int) list"

section \<open>Array primitives\<close>

definition map_px :: "('a \<Rightarrow> 'b) \<Rightarrow> 'a px \<Rightarrow> 'b px" where
  "map_px f p = (case p of (a, b, c) \<Rightarrow> (f a, f b, f c))"

definition map2_px :: "('a \<Rightarrow> 'b \<Rightarrow> 'c) \<Rightarrow> 'a px \<Rightarrow> 'b px \<Rightarrow> 'c px" where
  "map2_px f p q = (case p of (a, b, c) \<Rightarrow> (case q of (d, e, g) \<Rightarrow> (f a d, f b e, f c g)))"

definition map_grid :: "('a \<Rightarrow> 'b) \<Rightarrow> 'a grid \<Rightarrow> 'b grid" where
  "map_grid f g = map (map f) g"

definition map2_grid :: "('a \<Rightarrow> 'b \<Rightarrow> 'c) \<Rightarrow> 'a grid \<Rightarrow> 'b grid \<Rightarrow> 'c grid" where
  "map2_grid f g h = map2 (\<lambda>r s. map2 f r s) g h"

definition same_shape :: "'a grid \<Rightarrow> 'b grid \<Rightarrow> bool" where
  "same_shape g h = list_all2 (\<lambda>r s. length r = length s) g h"

text \<open>\<open>uint8\<close> to \<open>float64\<close>, and \<open>astype(np.uint8)\<close>: truncation towards zero, then the
  low eight bits.\<close>

definition to_float :: "u8 \<Rightarrow> rat" where
  "to_float w = of_nat (unat w)"

definition trunc :: "rat \<Rightarrow> int" where
  "trunc x = (if 0 \<le> x then \<lfloor>x\<rfloor> else - \<lfloor>- x\<rfloor>)"

definition astype_uint8 :: "rat \<Rightarrow> u8" where
  "astype_uint8 x = word_of_int (trunc x)"

text \<open>\<open>np.where(cond, x, y)\<close> on arrays of one shape.\<close>

definition np_where :: "bool grid \<Rightarrow> 'a grid \<Rightarrow> 'a grid \<Rightarrow> 'a grid" where
  "np_where cond x y = map2_grid (\<lambda>b (u, v). if b then u else v) cond (map2_grid Pair x y)"

section \<open>\<open>draw_instance_predictions\<close>\<close>

text \<open>The source calls the mask \<open>mask\<close>, a constant of the word library; it is \<open>msk\<close> here.
  Line 54: \<open>np.stack([mask * color[j] for j in range(3)], axis=-1)\<close>, a \<open>uint8\<close> array.\<close>

definition color_mask :: "bool grid \<Rightarrow> u8 px \<Rightarrow> u8 px grid" where
  "color_mask msk color = map_grid (\<lambda>b. map_px (\<lambda>cj. if b then cj else 0) color) msk"

text \<open>Line 55: \<open>np.where(mask[:, :, None], img * 0.5 + color_mask * 0.5, img)\<close>. numpy raises
  \<open>ValueError\<close> when the shapes cannot be broadcast; an axis of length one would be broadcast
  silently, which no detection of the data model produces, so every shape other than the
  image's own is an error here.\<close>

definition blend :: "rat px grid \<Rightarrow> bool grid \<Rightarrow> u8 px \<Rightarrow> error + rat px grid" where
  "blend im msk color =
     (if same_shape msk im then
        Inr (np_where msk
               (map2_grid (map2_px (+))
                  (map_grid (map_px (\<lambda>v. v * (1 / 2))) im)
                  (map_grid (map_px (\<lambda>w. to_float w * (1 / 2))) (color_mask msk color)))
               im)
      else Inl ValueError)"

text \<open>Line 58: \<open>np.column_stack(np.where(mask))\<close>, the (row, column) pairs of the true cells
  in row-major order.\<close>

definition coords :: "bool grid \<Rightarrow> (nat \<times> nat) list" where
  "coords msk =
     concat (map (\<lambda>r. map (\<lambda>c. (r, c)) (filter (\<lambda>c. msk ! r ! c) [0..<length (msk ! r)]))
               [0..<length msk])"

text \<open>Line 61: \<open>coords.mean(axis=0).astype(int)\<close>. The column sums are integers, and the
  quotient of two integers below \<open>2^26\<close> is never close enough to an integer for the
  rounding of the \<open>float64\<close> division to change its truncation.\<close>

definition mean :: "nat list \<Rightarrow> rat" where
  "mean xs = of_nat (sum_list xs) / of_nat (length xs)"

definition center :: "(nat \<times> nat) list \<Rightarrow> int \<times> int" where
  "center cs = (trunc (mean (map fst cs)), trunc (mean (map snd cs)))"

text \<open>Python's \<open>str\<close> of an integer.\<close>

definition digit :: "nat \<Rightarrow> char" where
  "digit d = char_of (48 + d)"

function str_nat :: "nat \<Rightarrow> string" where
  "str_nat n = (if n < 10 then [digit n] else str_nat (n div 10) @ [digit (n mod 10)])"
  by pat_completeness auto
termination
  by (relation "measure id") auto

definition str_int :: "int \<Rightarrow> string" where
  "str_int i = (if i < 0 then CHR ''-'' # str_nat (nat (- i)) else str_nat (nat i))"

text \<open>Line 64: \<open>CLASS_NAMES[labels[i]] if labels[i] < len(CLASS_NAMES) else str(labels[i])\<close>.
  Indexing a Python list with a negative integer counts from the end and raises
  \<open>IndexError\<close> below \<open>-len\<close>.\<close>

definition getitem :: "'a list \<Rightarrow> int \<Rightarrow> error + 'a" where
  "getitem xs i =
     (if 0 \<le> i then (if i < int (length xs) then Inr (xs ! nat i) else Inl IndexError)
      else if - int (length xs) \<le> i then Inr (xs ! nat (int (length xs) + i))
      else Inl IndexError)"

definition label_text :: "string list \<Rightarrow> int \<Rightarrow> error + string" where
  "label_text names l = (if l < int (length names) then getitem names l else Inr (str_int l))"

text \<open>Lines 52 to 70: the body of the loop for an instance that passed the threshold.
  \<open>texts\<close> records the calls of \<open>cv2.putText\<close> (text and origin \<open>(x, y)\<close>).\<close>

definition process_instance ::
  "renderer \<Rightarrow> string list \<Rightarrow> (nat \<Rightarrow> u8 px) \<Rightarrow> mask_array \<Rightarrow> int list \<Rightarrow> nat \<Rightarrow> canvas
     \<Rightarrow> error + canvas" where
  "process_instance putText names draws masks labels i st =
     (let msk = planes masks ! i;
          color = draws (drawn st)
      in case blend (img st) msk color of
           Inl e \<Rightarrow> Inl e
         | Inr im \<Rightarrow>
             (let st1 = st\<lparr>img := im, drawn := drawn st + 1\<rparr>;
                  cs = coords msk
              in if length cs = 0 then Inr st1
                 else (case center cs of (y_center, x_center) \<Rightarrow>
                   if length labels \<le> i then Inl IndexError
                   else (case label_text names (labels ! i) of
                           Inl e \<Rightarrow> Inl e
                         | Inr label \<Rightarrow>
                             Inr (st1\<lparr>img := putText im label (x_center, y_center),
                                      texts := texts st1 @ [(label, (x_center, y_center))]\<rparr>)))))"

text \<open>Lines 48 to 50: the loop over \<open>range(len(masks))\<close> with its threshold test.\<close>

fun draw_loop ::
  "renderer \<Rightarrow> string list \<Rightarrow> (nat \<Rightarrow> u8 px) \<Rightarrow> mask_array \<Rightarrow> int list \<Rightarrow> rat list \<Rightarrow> rat
     \<Rightarrow> nat list \<Rightarrow> canvas \<Rightarrow> error + canvas" where
  "draw_loop putText names draws masks labels scores score_thresh [] st = Inr st"
| "draw_loop putText names draws masks labels scores score_thresh (i # rest) st =
     (if length scores \<le> i then Inl IndexError
      else if scores ! i < score_thresh then
        draw_loop putText names draws masks labels scores score_thresh rest st
      else (case process_instance putText names draws masks labels i st of
              Inl e \<Rightarrow> Inl e
            | Inr st' \<Rightarrow> draw_loop putText names draws masks labels scores score_thresh rest st'))"

definition draw_canvas ::
  "renderer \<Rightarrow> string list \<Rightarrow> (nat \<Rightarrow> u8 px) \<Rightarrow> u8 px grid \<Rightarrow> box list \<Rightarrow> mask_array
     \<Rightarrow> int list \<Rightarrow> rat list \<Rightarrow> rat \<Rightarrow> error + canvas" where
  "draw_canvas putText names draws img0 boxes masks labels scores score_thresh =
     draw_loop putText names draws masks labels scores score_thresh
       [0..<length (planes masks)]
       \<lparr>img = map_grid (map_px to_float) img0, drawn = 0, texts = []\<rparr>"

text \<open>Line 72: \<open>return img.astype(np.uint8)\<close>.\<close>

definition draw_instance_predictions ::
  "renderer \<Rightarrow> string list \<Rightarrow> (nat \<Rightarrow> u8 px) \<Rightarrow> u8 px grid \<Rightarrow> box list \<Rightarrow> mask_array
     \<Rightarrow> int list \<Rightarrow> rat list \<Rightarrow> rat \<Rightarrow> error + u8 px grid" where
  "draw_instance_predictions putText names draws img0 boxes masks labels scores score_thresh =
     (case draw_canvas putText names draws img0 boxes masks labels scores score_thresh of
        Inl e \<Rightarrow> Inl e
      | Inr st \<Rightarrow> Inr (map_grid (map_px astype_uint8) (img st)))"

section \<open>The merged region of \<open>run_inference\<close>\<close>

text \<open>Line 111: \<open>np.any(masks, axis=0).astype(np.uint8)\<close>.\<close>

definition np_any_axis0 :: "mask_array \<Rightarrow> bool grid" where
  "np_any_axis0 masks =
     map (\<lambda>r. map (\<lambda>c. list_ex (\<lambda>m. m ! r ! c) (planes masks)) [0..<mcols masks])
       [0..<mrows masks]"

definition merged_mask :: "mask_array \<Rightarrow> u8 grid" where
  "merged_mask masks = map_grid (\<lambda>b. if b then 1 else 0) (np_any_axis0 masks)"

section \<open>The claims' vocabulary\<close>







text \<open>The text of the last call of the renderer.\<close>

definition last_text :: "canvas \<Rightarrow> string" where
  "last_text st = fst (last (texts st))"

text \<open>A renderer for the concrete runs below. \<open>cv2.putText\<close> paints the strokes of each glyph
  in the text colour \<open>(0, 0, 0)\<close>, to the right of the origin and above it; this one paints
  the pixel at the origin and its right neighbour, where the image has them.\<close>

definition paint :: "rat px grid \<Rightarrow> nat \<Rightarrow> nat \<Rightarrow> rat px grid" where
  "paint im r c = im[r := (im ! r)[c := (0, 0, 0)]]"

definition two_pixel_text :: renderer where
  "two_pixel_text im txt org =
     (case org of (x, y) \<Rightarrow>
        if txt = [] \<or> x < 0 \<or> y < 0 then im
        else paint (paint im (nat y) (nat x)) (nat y) (nat x + 1))"

section \<open>Arrays: shapes and cells\<close>




lemma map_grid_length [simp]: "length (map_grid f g) = length g"
  by (simp add: map_grid_def)

lemma map_grid_row_length [simp]: "r < length g \<Longrightarrow> length (map_grid f g ! r) = length (g ! r)"
  by (simp add: map_grid_def)

lemma map2_grid_length [simp]: "length (map2_grid f g h) = min (length g) (length h)"
  by (simp add: map2_grid_def)

lemma map2_grid_row_length [simp]:
  "r < length g \<Longrightarrow> r < length h \<Longrightarrow>
   length (map2_grid f g h ! r) = min (length (g ! r)) (length (h ! r))"
  by (simp add: map2_grid_def)






lemma astype_to_float: "astype_uint8 (to_float w) = w"
proof -
  have "trunc (of_nat (unat w)) = int (unat w)"
    unfolding trunc_def by (simp del: of_nat_unat)
  then show ?thesis
    unfolding astype_uint8_def to_float_def by simp
qed

lemma astype_px_to_float: "map_px astype_uint8 (map_px to_float p) = p"
  by (cases p) (simp add: map_px_def astype_to_float)

lemma astype_grid_to_float: "map_grid (map_px astype_uint8) (map_grid (map_px to_float) g) = g"
  by (simp add: map_grid_def comp_def astype_px_to_float map_idI)








section \<open>The compositor\<close>

text \<open>Claim C10. The image returned by \<open>draw_instance_predictions\<close> does not depend on
  \<open>boxes\<close>: two calls that agree on every other argument, the renderer, the catalogue and
  the colour draws return the same result, whatever their boxes are.\<close>

theorem boxes_unread:
  "draw_instance_predictions putText names draws img0 boxes masks labels scores score_thresh =
   draw_instance_predictions putText names draws img0 boxes' masks labels scores score_thresh"
  by (simp add: draw_instance_predictions_def draw_canvas_def)

text \<open>Claim C8. For a detection with no instance, \<open>draw_instance_predictions\<close> returns the
  source image as it is, and the merged region is the all-zero grid of the mask array's
  height and width, which the detector makes those of the image.\<close>

theorem zero_instances:
  "draw_instance_predictions putText names draws img0 boxes
     \<lparr>mrows = h, mcols = w, planes = []\<rparr> labels scores score_thresh = Inr img0 \<and>
   merged_mask \<lparr>mrows = h, mcols = w, planes = []\<rparr> = replicate h (replicate w 0)"
proof -
  have "map (\<lambda>r. map (\<lambda>c. (0::u8)) [0..<w]) [0..<h] = replicate h (replicate w 0)"
    by (simp add: map_replicate_const)
  then have "merged_mask \<lparr>mrows = h, mcols = w, planes = []\<rparr> = replicate h (replicate w 0)"
    by (simp add: merged_mask_def np_any_axis0_def map_grid_def comp_def)
  moreover have "draw_instance_predictions putText names draws img0 boxes
     \<lparr>mrows = h, mcols = w, planes = []\<rparr> labels scores score_thresh = Inr img0"
    by (simp add: draw_instance_predictions_def draw_canvas_def astype_grid_to_float)
  ultimately show ?thesis by simp
qed

theorem zero_instances_witness:
  "draw_instance_predictions two_pixel_text [''background'', ''rice''] (\<lambda>k. (100, 110, 120))
     [[(10, 20, 30), (11, 21, 31)]] [] \<lparr>mrows = 1, mcols = 2, planes = []\<rparr> [] [] (1 / 2)
     = Inr [[(10, 20, 30), (11, 21, 31)]] \<and>
   merged_mask \<lparr>mrows = 1, mcols = 2, planes = []\<rparr> = [[0, 0]]"
  using zero_instances [of two_pixel_text "[''background'', ''rice'']" "\<lambda>k. (100, 110, 120)"
      "[[(10, 20, 30), (11, 21, 31)]]" "[]" 1 2 "[]" "[]" "1 / 2"]
  by (simp add: numeral_2_eq_2)








section \<open>The region merger\<close>



lemma np_any_axis0_set:
  "set ps = set qs \<Longrightarrow>
   np_any_axis0 (masks\<lparr>planes := ps\<rparr>) = np_any_axis0 (masks\<lparr>planes := qs\<rparr>)"
  by (simp add: np_any_axis0_def list_ex_iff)

text \<open>Claim C5. Merging is idempotent and independent of the order of the instances: the
  mask sequence followed by itself merges to the same grid as the sequence alone, and so
  does every permutation of the sequence.\<close>

theorem merge_order_independent:
  "merged_mask (masks\<lparr>planes := planes masks @ planes masks\<rparr>) = merged_mask masks \<and>
   (\<forall>ps. mset ps = mset (planes masks) \<longrightarrow> merged_mask (masks\<lparr>planes := ps\<rparr>) = merged_mask masks)"
proof (intro conjI allI impI)
  have "set (planes masks @ planes masks) = set (planes masks)" by simp
  from np_any_axis0_set [OF this, of masks]
  show "merged_mask (masks\<lparr>planes := planes masks @ planes masks\<rparr>) = merged_mask masks"
    by (simp add: merged_mask_def)
next
  fix ps assume "mset ps = mset (planes masks)"
  then have "set ps = set (planes masks)" by (rule mset_eq_setD)
  from np_any_axis0_set [OF this, of masks]
  show "merged_mask (masks\<lparr>planes := ps\<rparr>) = merged_mask masks"
    by (simp add: merged_mask_def)
qed

theorem merge_order_independent_witness:
  "merged_mask \<lparr>mrows = 1, mcols = 3, planes = [[[False, False, True]], [[True, False, False]]]\<rparr>
   = merged_mask \<lparr>mrows = 1, mcols = 3, planes = [[[True, False, False]], [[False, False, True]]]\<rparr>
   \<and> merged_mask \<lparr>mrows = 1, mcols = 3, planes = [[[True, False, False]], [[False, False, True]],
        [[True, False, False]], [[False, False, True]]]\<rparr>
   = merged_mask \<lparr>mrows = 1, mcols = 3, planes = [[[True, False, False]], [[False, False, True]]]\<rparr>"
proof -
  have "mset [[[False, False, True]], [[True, False, False]]] =
        mset (planes \<lparr>mrows = 1, mcols = 3,
                planes = [[[True, False, False]], [[False, False, True]]]\<rparr>)"
    by simp
  note th = merge_order_independent [of "\<lparr>mrows = 1, mcols = 3,
                planes = [[[True, False, False]], [[False, False, True]]]\<rparr>"]
  have 1: "merged_mask \<lparr>mrows = 1, mcols = 3, planes = [[[False, False, True]], [[True, False, False]]]\<rparr>
   = merged_mask \<lparr>mrows = 1, mcols = 3, planes = [[[True, False, False]], [[False, False, True]]]\<rparr>"
    using th [THEN conjunct2, THEN spec, of "[[[False, False, True]], [[True, False, False]]]"]
    by simp
  have 2: "merged_mask \<lparr>mrows = 1, mcols = 3, planes = [[[True, False, False]], [[False, False, True]],
        [[True, False, False]], [[False, False, True]]]\<rparr>
   = merged_mask \<lparr>mrows = 1, mcols = 3, planes = [[[True, False, False]], [[False, False, True]]]\<rparr>"
    using th [THEN conjunct1] by simp
  show ?thesis using 1 2 by (rule conjI)
qed

section \<open>Blending at one pixel\<close>












section \<open>The merged region against the visualization\<close>




section \<open>Labels\<close>

lemma draw_loop_single_label:
  assumes "i < length scores" and "t \<le> scores ! i" and "i < length labels"
    and "same_shape (planes masks ! i) (img st)"
    and "coords (planes masks ! i) \<noteq> []"
  shows "map_sum id last_text (draw_loop P names draws masks labels scores t [i] st) =
         label_text names (labels ! i)"
proof -
  obtain b where b: "blend (img st) (planes masks ! i) (draws (drawn st)) = Inr b"
    using assms(4) by (simp add: blend_def)
  show ?thesis
  proof (cases "label_text names (labels ! i)")
    case (Inl e)
    then show ?thesis
      using assms b
      by (simp add: process_instance_def Let_def not_less split: prod.splits)
  next
    case (Inr label)
    then show ?thesis
      using assms b
      by (simp add: process_instance_def Let_def not_less last_text_def split: prod.splits)
  qed
qed



text \<open>Claim C9. A negative label id passes the test \<open>labels[i] < len(CLASS_NAMES)\<close>, so the
  decimal string is not used for it: the text drawn for an accepted instance that gets a
  label is the catalogue entry at position \<open>len(CLASS_NAMES) + labels[i]\<close> when that is not
  negative, and when \<open>labels[i] < -len(CLASS_NAMES)\<close> the lookup raises \<open>IndexError\<close>, which
  ends the run.\<close>

theorem negative_label:
  assumes "i < length scores" and "t \<le> scores ! i" and "i < length labels"
    and "same_shape (planes masks ! i) (img st)"
    and "coords (planes masks ! i) \<noteq> []"
    and "labels ! i < 0"
  shows "labels ! i < int (length names) \<and>
         (- int (length names) \<le> labels ! i \<longrightarrow>
            map_sum id last_text (draw_loop putText names draws masks labels scores t [i] st) =
            Inr (names ! nat (int (length names) + labels ! i))) \<and>
         (labels ! i < - int (length names) \<longrightarrow>
            draw_loop putText names draws masks labels scores t [i] st = Inl IndexError \<and>
            draw_loop putText names draws masks labels scores t (i # rest) st = Inl IndexError)"
proof -
  have l: "map_sum id last_text (draw_loop putText names draws masks labels scores t [i] st) =
         label_text names (labels ! i)"
    using assms(1-5) by (rule draw_loop_single_label)
  have 1: "labels ! i < int (length names)" using assms(6) by simp
  have 2: "map_sum id last_text (draw_loop putText names draws masks labels scores t [i] st) =
            Inr (names ! nat (int (length names) + labels ! i))"
    if "- int (length names) \<le> labels ! i"
    using that assms(6) unfolding l by (simp add: label_text_def getitem_def)
  have 3: "draw_loop putText names draws masks labels scores t [i] st = Inl IndexError \<and>
           draw_loop putText names draws masks labels scores t (i # rest) st = Inl IndexError"
    if "labels ! i < - int (length names)"
  proof -
    have "label_text names (labels ! i) = Inl IndexError"
      using that assms(6) by (simp add: label_text_def getitem_def)
    with l have "map_sum id last_text
        (draw_loop putText names draws masks labels scores t [i] st) = Inl IndexError"
      by simp
    then have "draw_loop putText names draws masks labels scores t [i] st = Inl IndexError"
      by (cases "draw_loop putText names draws masks labels scores t [i] st") simp_all
    then show ?thesis
      using assms(1,2) by (simp add: not_less split: sum.splits)
  qed
  show ?thesis using 1 2 3 by blast
qed

theorem negative_label_witness:
  "map_sum id last_text
     (draw_loop two_pixel_text [''background'', ''rice''] (\<lambda>k. (100, 110, 120))
        \<lparr>mrows = 1, mcols = 2, planes = [[[True, False]], [[False, True]]]\<rparr> [- 1, - 3]
        [9 / 10, 8 / 10] (1 / 2) [0]
        \<lparr>img = [[(10, 20, 30), (11, 21, 31)]], drawn = 0, texts = []\<rparr>) = Inr ''rice'' \<and>
   draw_loop two_pixel_text [''background'', ''rice''] (\<lambda>k. (100, 110, 120))
        \<lparr>mrows = 1, mcols = 2, planes = [[[True, False]], [[False, True]]]\<rparr> [- 1, - 3]
        [9 / 10, 8 / 10] (1 / 2) [1]
        \<lparr>img = [[(10, 20, 30), (11, 21, 31)]], drawn = 0, texts = []\<rparr> = Inl IndexError"
proof -
  let ?ms = "\<lparr>mrows = 1, mcols = 2, planes = [[[True, False]], [[False, True]]]\<rparr>"
  let ?st = "\<lparr>img = [[(10, 20, 30), (11, 21, 31)]], drawn = 0, texts = []\<rparr> :: canvas"
  have c0: "coords (planes ?ms ! 0) \<noteq> []" and c1: "coords (planes ?ms ! 1) \<noteq> []"
    by code_simp+
  have sh0: "same_shape (planes ?ms ! 0) (img ?st)" and sh1: "same_shape (planes ?ms ! 1) (img ?st)"
    by (simp_all add: same_shape_def)
  have a0: "0 < length [9 / 10, 8 / 10 :: rat]" "(1 / 2 :: rat) \<le> [9 / 10, 8 / 10] ! 0"
    "0 < length [- 1, - 3 :: int]"
    and a1: "1 < length [9 / 10, 8 / 10 :: rat]" "(1 / 2 :: rat) \<le> [9 / 10, 8 / 10] ! 1"
    "1 < length [- 1, - 3 :: int]"
    and n0: "[- 1, - 3 :: int] ! 0 < 0" and n1: "[- 1, - 3 :: int] ! 1 < 0"
    by simp_all
  show ?thesis
    using negative_label [OF a0 sh0 c0 n0, of "[''background'', ''rice'']" two_pixel_text
        "\<lambda>k. (100, 110, 120)"]
      negative_label [OF a1 sh1 c1 n1, of "[''background'', ''rice'']" two_pixel_text
        "\<lambda>k. (100, 110, 120)"]
    by simp
qed

section \<open>The label anchor\<close>










end
